theory Spec2Isabelle
  imports Complex_Main
begin

section \<open>VRGDA curve plotting scripts: data model\<close>

text \<open>
  The repository holds four flat Python scripts. Each loads the parallel lists
  \<open>eth_amounts\<close> and \<open>love_multipliers\<close> from a CSV file, draws the curve and prints
  to the console. The theory models their control flow: which sample a scan picks, when
  a loop breaks, which pixel is assigned, what is printed and written and in which order,
  and where an exception ends the run.

  A Python float that denotes a number is modelled by the real it denotes; \<open>inf\<close> and
  \<open>nan\<close> as data are not modelled. Comparisons of doubles are the comparisons of these
  reals. A subtraction or multiplication of doubles in a scan is the exact result rounded
  to the nearest double (\<open>rnd\<close> below), and a float literal of the source is the
  double nearest to its decimal. The functions of the C library (\<open>math.log\<close>,
  \<open>math.pow\<close>, \<open>math.log10\<close>, \<open>np.sqrt\<close>) have no model in double precision: where only the
  integer that such an expression is truncated to matters, the expression is a parameter
  of the model, and the cells of the ASCII chart and the last sections of the theory take
  the exact values of these functions and say so.

  A raise of the source is a value \<open>Inl e\<close> of the result type.
\<close>

datatype py_error = OSError | KeyError | TypeError | ValueError | IndexError | OverflowError

text \<open>\<open>xs[i]\<close> for an index produced by \<open>enumerate\<close> (never negative).\<close>

definition getitem :: "'a list \<Rightarrow> nat \<Rightarrow> py_error + 'a" where
  "getitem xs i = (if i < length xs then Inr (xs ! i) else Inl IndexError)"

section \<open>Double-precision arithmetic\<close>

text \<open>
  Python's float is the IEEE 754 binary64 format: 53 significant bits, least normal
  exponent -1022, round to nearest with ties to the even significand. \<open>rnd r\<close> is the
  double nearest to the real \<open>r\<close>: with \<open>e\<close> the binary exponent of \<open>r\<close> (not below
  -1022, which gives the subnormal numbers their fixed spacing), \<open>r\<close> is rounded to a
  multiple of \<open>pow2 (e - 52)\<close>. \<open>a - b\<close> on doubles is \<open>rnd (a - b)\<close>, and likewise
  for \<open>*\<close>. A result that IEEE 754 replaces by an infinity is one for which \<open>overflows\<close>
  holds of the exact value; \<open>rnd\<close> is not meant for such values.
\<close>

definition pow2 :: "int \<Rightarrow> real" where
  "pow2 k = (if 0 \<le> k then 2 ^ nat k else 1 / 2 ^ nat (- k))"

definition round_even :: "real \<Rightarrow> int" where
  "round_even x =
     (let f = \<lfloor>x\<rfloor>
      in if x - of_int f < 1 / 2 then f
         else if 1 / 2 < x - of_int f then f + 1
         else if even f then f else f + 1)"

definition double_exponent :: "real \<Rightarrow> int" where
  "double_exponent r = max \<lfloor>log 2 \<bar>r\<bar>\<rfloor> (- 1022)"

definition rnd :: "real \<Rightarrow> real" where
  "rnd r =
     (if r = 0 then 0
      else of_int (round_even (r / pow2 (double_exponent r - 52))) * pow2 (double_exponent r - 52))"


section \<open>Summary reporter (plot\_vrgda\_curve.py, lines 126--136)\<close>

text \<open>
  \<^verbatim>\<open>
  for i, mult in enumerate(love_multipliers):
      if mult < 5:
          print(f"Multiplier drops below 5x at: {eth_amounts[i]:.1f} ETH")
          break
  \<close>
  The loop is the same for the threshold 1. The model returns what the loop reports:
  nothing (\<open>None\<close>) when no sample is below the threshold, otherwise the index at which
  the loop broke and the \<open>eth_amounts[i]\<close> that is printed.
\<close>

fun drops_below :: "real \<Rightarrow> real list \<Rightarrow> nat \<Rightarrow> real list \<Rightarrow> py_error + (nat \<times> real) option" where
  "drops_below thr eth_amounts i [] = Inr None"
| "drops_below thr eth_amounts i (mult # rest) =
     (if mult < thr
      then (case getitem eth_amounts i of
              Inl e \<Rightarrow> Inl e
            | Inr x \<Rightarrow> Inr (Some (i, x)))
      else drops_below thr eth_amounts (Suc i) rest)"

text \<open>The two reports of the script, in the order it makes them; a raise ends the run.\<close>

definition threshold_crossings ::
  "real list \<Rightarrow> real list \<Rightarrow> py_error + ((nat \<times> real) option \<times> (nat \<times> real) option)" where
  "threshold_crossings eth_amounts love_multipliers =
     (case drops_below 5 eth_amounts 0 love_multipliers of
        Inl e \<Rightarrow> Inl e
      | Inr below5 \<Rightarrow>
          (case drops_below 1 eth_amounts 0 love_multipliers of
             Inl e \<Rightarrow> Inl e
           | Inr below1 \<Rightarrow> Inr (below5, below1)))"

section \<open>Nearest-sample searches\<close>

subsection \<open>Key point annotations (plot\_vrgda\_curve.py, lines 89--96)\<close>

text \<open>
  \<^verbatim>\<open>
  min_diff = float('inf')
  actual_y = y_target
  for i, eth in enumerate(eth_amounts):
      if abs(eth - x) < min_diff:
          min_diff = abs(eth - x)
          actual_y = love_multipliers[i]
  \<close>
  \<open>min_diff\<close> is \<open>None\<close> while it still holds \<open>float('inf')\<close>. \<open>eth\<close> is a double and
  \<open>x\<close> one of the targets of \<open>key_points\<close>, so \<open>eth - x\<close> is finite.
\<close>

fun less_min_diff :: "real \<Rightarrow> real option \<Rightarrow> bool" where
  "less_min_diff d None = True"
| "less_min_diff d (Some m) = (d < m)"

fun key_point_scan ::
  "real \<Rightarrow> real list \<Rightarrow> nat \<Rightarrow> real list \<Rightarrow> real option \<times> real \<Rightarrow> py_error + (real option \<times> real)" where
  "key_point_scan x love_multipliers i [] st = Inr st"
| "key_point_scan x love_multipliers i (eth # rest) (min_diff, actual_y) =
     (if less_min_diff \<bar>rnd (eth - x)\<bar> min_diff
      then (case getitem love_multipliers i of
              Inl e \<Rightarrow> Inl e
            | Inr m \<Rightarrow> key_point_scan x love_multipliers (Suc i) rest (Some \<bar>rnd (eth - x)\<bar>, m))
      else key_point_scan x love_multipliers (Suc i) rest (min_diff, actual_y))"

definition key_point_y :: "real \<Rightarrow> real \<Rightarrow> real list \<Rightarrow> real list \<Rightarrow> py_error + real" where
  "key_point_y x y_target eth_amounts love_multipliers =
     (case key_point_scan x love_multipliers 0 eth_amounts (None, y_target) of
        Inl e \<Rightarrow> Inl e
      | Inr (min_diff, actual_y) \<Rightarrow> Inr actual_y)"

subsection \<open>KEY THRESHOLDS table (plot\_vrgda\_curve\_simple.py, lines 98--106)\<close>

text \<open>
  \<^verbatim>\<open>
  # Find closest actual value
  closest_mult = 0
  for i, eth in enumerate(eth_amounts):
      if abs(eth - eth_target) < 0.01 or (eth_target >= 1 and abs(eth - eth_target) < eth_target * 0.1):
          closest_mult = love_multipliers[i]
          break
  \<close>
  The literals \<open>0.01\<close> and \<open>0.1\<close> are the doubles \<open>rnd (1 / 100)\<close> and \<open>rnd (1 / 10)\<close>; the
  difference and the product are rounded.
\<close>

fun threshold_scan :: "real \<Rightarrow> real list \<Rightarrow> nat \<Rightarrow> real list \<Rightarrow> py_error + real" where
  "threshold_scan eth_target love_multipliers i [] = Inr 0"
| "threshold_scan eth_target love_multipliers i (eth # rest) =
     (if \<bar>rnd (eth - eth_target)\<bar> < rnd (1 / 100)
         \<or> (eth_target \<ge> 1 \<and> \<bar>rnd (eth - eth_target)\<bar> < rnd (eth_target * rnd (1 / 10)))
      then getitem love_multipliers i
      else threshold_scan eth_target love_multipliers (Suc i) rest)"

definition closest_mult :: "real \<Rightarrow> real list \<Rightarrow> real list \<Rightarrow> py_error + real" where
  "closest_mult eth_target eth_amounts love_multipliers =
     threshold_scan eth_target love_multipliers 0 eth_amounts"



section \<open>Dataset loader (all four scripts)\<close>

text \<open>
  \<^verbatim>\<open>
  eth_amounts = []
  love_multipliers = []
  with open('vrgda_curve_data.csv', 'r') as f:
      reader = csv.DictReader(f)
      for row in reader:
          eth_amounts.append(float(row['eth_amount']))
          love_multipliers.append(float(row['love_multiplier']))
  \<close>
  \<open>open\<close>, \<open>csv.DictReader\<close> and \<open>float\<close> belong to Python's library, not to the
  repository, so they enter the model as inputs: \<open>file\<close> is \<open>None\<close> when \<open>open\<close> raises
  (missing or unreadable file) and otherwise the rows the reader yields, in file order;
  a row maps a header name to its field, which is \<open>None\<close> (the reader's \<open>restval\<close>) when
  the row is too short; \<open>pyfloat\<close> is \<open>float\<close> on strings, \<open>None\<close> where it raises
  ValueError. Nothing catches an exception: the first raise ends the script.
\<close>

type_synonym csv_row = "string \<rightharpoonup> string option"

definition float_field :: "(string \<Rightarrow> 'a option) \<Rightarrow> csv_row \<Rightarrow> string \<Rightarrow> py_error + 'a" where
  "float_field pyfloat row key =
     (case row key of
        None \<Rightarrow> Inl KeyError
      | Some None \<Rightarrow> Inl TypeError
      | Some (Some s) \<Rightarrow> (case pyfloat s of None \<Rightarrow> Inl ValueError | Some v \<Rightarrow> Inr v))"

fun load_rows ::
  "(string \<Rightarrow> 'a option) \<Rightarrow> csv_row list \<Rightarrow> 'a list \<times> 'a list \<Rightarrow> py_error + ('a list \<times> 'a list)" where
  "load_rows pyfloat [] (eth_amounts, love_multipliers) = Inr (eth_amounts, love_multipliers)"
| "load_rows pyfloat (row # rows) (eth_amounts, love_multipliers) =
     (case float_field pyfloat row ''eth_amount'' of
        Inl e \<Rightarrow> Inl e
      | Inr x \<Rightarrow>
          (case float_field pyfloat row ''love_multiplier'' of
             Inl e \<Rightarrow> Inl e
           | Inr y \<Rightarrow> load_rows pyfloat rows (eth_amounts @ [x], love_multipliers @ [y])))"

definition load_csv ::
  "(string \<Rightarrow> 'a option) \<Rightarrow> csv_row list option \<Rightarrow> py_error + ('a list \<times> 'a list)" where
  "load_csv pyfloat file =
     (case file of
        None \<Rightarrow> Inl OSError
      | Some rows \<Rightarrow> load_rows pyfloat rows ([], []))"

section \<open>Fallback rasteriser (generate\_vrgda\_png.py, lines 158--226)\<close>

text \<open>
  Without PIL the script fills \<open>pixels\<close>, a list of \<open>height\<close> rows of \<open>width\<close> colours, by
  assignments \<open>pixels[py][px] = colour\<close>. The model is the list of these assignments in
  the order the script makes them, each with its row index, column index and colour.

  The integer pixel coordinates come from float expressions followed by \<open>int(...)\<close>:
  \<open>int(margin + (math.log10(v) - math.log10(0.0001)) / (math.log10(200) -
  math.log10(0.0001)) * chart_width)\<close> for an x value and
  \<open>int(margin + (10 - mult) * chart_height / 10)\<close> for a y value. They enter the model
  as the functions \<open>xpix\<close> and \<open>ypix\<close>, so that what is proved holds for whatever integers
  these expressions produce. In the line loop, \<open>j / steps\<close> is Python's true division and
  \<open>int\<close> truncates towards zero.
\<close>

type_synonym colour = "nat \<times> nat \<times> nat"
type_synonym pixel_write = "int \<times> int \<times> colour"

definition width :: int where "width = 800"
definition height :: int where "height = 600"
definition margin :: int where "margin = 60"
definition chart_width :: int where "chart_width = width - 2 * margin"
definition chart_height :: int where "chart_height = height - 2 * margin"

definition py_range :: "int \<Rightarrow> int \<Rightarrow> int list" where
  "py_range a b = [a..b - 1]"

definition py_int :: "real \<Rightarrow> int" where
  "py_int r = (if 0 \<le> r then \<lfloor>r\<rfloor> else \<lceil>r\<rceil>)"

definition fallback_zones :: "(real \<times> real \<times> colour) list" where
  "fallback_zones =
     [(1 / 10000, 1 / 1000, (255, 229, 229)),
      (1 / 1000, 1 / 10, (255, 240, 229)),
      (1 / 10, 1, (229, 245, 229)),
      (1, 10, (229, 229, 255)),
      (10, 100, (240, 229, 255)),
      (100, 200, (255, 229, 229))]"

definition zone_writes :: "(real \<Rightarrow> int) \<Rightarrow> pixel_write list" where
  "zone_writes xpix =
     concat (map (\<lambda>(start, end, color).
        let x1 = xpix start; x2 = xpix end
        in concat (map (\<lambda>y. map (\<lambda>x. (y, x, color))
                                 (py_range (max margin x1) (min (width - margin) x2)))
                      (py_range margin (height - margin))))
       fallback_zones)"

definition border_writes :: "pixel_write list" where
  "border_writes =
     concat (map (\<lambda>x. [(margin, x, (0, 0, 0)), (height - margin - 1, x, (0, 0, 0))])
                 (py_range margin (width - margin)))
     @ concat (map (\<lambda>y. [(y, margin, (0, 0, 0)), (y, width - margin - 1, (0, 0, 0))])
                 (py_range margin (height - margin)))"

definition grid_writes :: "pixel_write list" where
  "grid_writes =
     concat (map (\<lambda>i.
        let y = margin + i * chart_height div 10
        in concat (map (\<lambda>x. if x mod 4 < 2 then [(y, x, (200, 200, 200))] else [])
                      (py_range margin (width - margin))))
       (py_range 0 11))"

definition line_pixel_writes :: "int \<Rightarrow> int \<Rightarrow> pixel_write list" where
  "line_pixel_writes py px =
     (if 0 \<le> py \<and> py < height \<and> 0 \<le> px \<and> px < width
      then [(py, px, (255, 107, 107))]
           @ (if py > 0 then [(py - 1, px, (255, 107, 107))] else [])
           @ (if py < height - 1 then [(py + 1, px, (255, 107, 107))] else [])
      else [])"

definition line_writes :: "int \<Rightarrow> int \<Rightarrow> int \<Rightarrow> int \<Rightarrow> pixel_write list" where
  "line_writes prev_x prev_y x y =
     (let steps = max \<bar>x - prev_x\<bar> \<bar>y - prev_y\<bar>
      in if steps > 0
         then concat (map (\<lambda>j.
                let px = py_int (of_int prev_x + of_int ((x - prev_x) * j) / of_int steps);
                    py = py_int (of_int prev_y + of_int ((y - prev_y) * j) / of_int steps)
                in line_pixel_writes py px)
               (py_range 0 (steps + 1)))
         else [])"

definition point_pixel_writes :: "int \<Rightarrow> int \<Rightarrow> pixel_write list" where
  "point_pixel_writes py px =
     (if 0 \<le> py \<and> py < height \<and> 0 \<le> px \<and> px < width
      then [(py, px, (200, 50, 50))] else [])"

definition point_writes :: "int \<Rightarrow> int \<Rightarrow> pixel_write list" where
  "point_writes x y =
     concat (map (\<lambda>dy. concat (map (\<lambda>dx.
        if dx * dx + dy * dy \<le> 9
        then (let py = y + dy; px = x + dx in point_pixel_writes py px)
        else [])
       (py_range (- 3) 4))) (py_range (- 3) 4))"

fun curve_writes ::
  "(real \<Rightarrow> int) \<Rightarrow> (real \<Rightarrow> int) \<Rightarrow> (int \<times> int) option \<Rightarrow> (real \<times> real) list \<Rightarrow> pixel_write list" where
  "curve_writes xpix ypix prev [] = []"
| "curve_writes xpix ypix prev ((eth, mult) # rest) =
     (let x = xpix eth; y = ypix mult
      in (case prev of
            None \<Rightarrow> []
          | Some (prev_x, prev_y) \<Rightarrow> line_writes prev_x prev_y x y)
         @ point_writes x y
         @ curve_writes xpix ypix (Some (x, y)) rest)"

definition fallback_writes ::
  "(real \<Rightarrow> int) \<Rightarrow> (real \<Rightarrow> int) \<Rightarrow> real list \<Rightarrow> real list \<Rightarrow> pixel_write list" where
  "fallback_writes xpix ypix eth_amounts love_multipliers =
     zone_writes xpix @ border_writes @ grid_writes
     @ curve_writes xpix ypix None (zip eth_amounts love_multipliers)"

definition in_grid :: "pixel_write \<Rightarrow> bool" where
  "in_grid w = (case w of (py, px, c) \<Rightarrow> 0 \<le> py \<and> py < height \<and> 0 \<le> px \<and> px < width)"

definition in_chart :: "pixel_write \<Rightarrow> bool" where
  "in_chart w = (case w of (py, px, c) \<Rightarrow>
     margin \<le> py \<and> py < height - margin \<and> margin \<le> px \<and> px < width - margin)"

section \<open>Console output and files written\<close>

text \<open>
  What a script prints and which files it writes, in order, is a list of events; the second
  component of a run is the exception that ended it, if any. A printed line is a list of
  pieces: literal text, or a number with the count of decimals its format asks for
  (\<open>f"{v:.4f}"\<close> is \<open>Num v 4\<close>; field widths are left out). The characters of the
  ASCII chart that are not ASCII are the constructors of \<open>glyph\<close>. Writing a file, creating a
  directory and running a conversion tool are assumed not to raise.

  A script is the list of its statements that can print, write or raise, each one either
  the exception it raises or the events it emits; \<open>run_stmts\<close> runs them in order up to
  the first raise.
\<close>

datatype glyph = FullBlock | LowerHalfBlock | HLine | RightArrow

datatype piece = Lit string | Num real nat | Sym glyph nat | Newline

datatype event =
    Print "piece list"
  | PrintNoEnd "piece list"
  | WriteFile string
  | Makedirs string
  | RunTool string
  | RemoveFile string








subsection \<open>plot\_vrgda\_curve.py: annotations, saving, summary (lines 79--136)\<close>




subsection \<open>generate\_vrgda\_chart.py (lines 79--236)\<close>



subsection \<open>generate\_vrgda\_png.py (lines 34--282)\<close>





subsection \<open>plot\_vrgda\_curve\_simple.py (lines 25--124)\<close>

text \<open>
  The search of the chart cells:
  \<^verbatim>\<open>
  closest_idx = 0
  min_diff = float('inf')
  for i, eth in enumerate(eth_amounts):
      if abs(math.log(eth) - math.log(eth_position)) < min_diff:
          min_diff = abs(math.log(eth) - math.log(eth_position))
          closest_idx = i
  \<close>
  \<open>math.log(eth)\<close> raises ValueError unless \<open>eth > 0\<close>; \<open>eth_position\<close> is positive.
  \<open>math.log\<close> and, for \<open>eth_position\<close>, \<open>math.pow\<close> are taken at their exact values here:
  which statements of the script run does not depend on them, which glyph a cell shows
  can, at a rounding boundary.
\<close>

fun closest_idx_scan ::
  "real \<Rightarrow> nat \<Rightarrow> real list \<Rightarrow> nat \<times> real option \<Rightarrow> py_error + (nat \<times> real option)" where
  "closest_idx_scan eth_position i [] st = Inr st"
| "closest_idx_scan eth_position i (eth # rest) (closest_idx, min_diff) =
     (if eth \<le> 0 then Inl ValueError
      else if less_min_diff \<bar>ln eth - ln eth_position\<bar> min_diff
      then closest_idx_scan eth_position (Suc i) rest (i, Some \<bar>ln eth - ln eth_position\<bar>)
      else closest_idx_scan eth_position (Suc i) rest (closest_idx, min_diff))"

text \<open>The closest sample in this search: least distance between logarithms, earliest on a tie.\<close>

definition first_closest_log :: "real \<Rightarrow> real list \<Rightarrow> nat \<Rightarrow> bool" where
  "first_closest_log p eth_amounts k \<longleftrightarrow>
     k < length eth_amounts
     \<and> (\<forall>j<length eth_amounts. \<bar>ln (eth_amounts ! k) - ln p\<bar> \<le> \<bar>ln (eth_amounts ! j) - ln p\<bar>)
     \<and> (\<forall>j<k. \<bar>ln (eth_amounts ! k) - ln p\<bar> < \<bar>ln (eth_amounts ! j) - ln p\<bar>)"






subsection \<open>What a run reports\<close>

text \<open>
  The numbers a run prints, the events after the last file it writes, and what it means
  for printed numbers to report the range of the dataset (its least and greatest x and
  y) and a threshold crossing (the x printed by the summary reporter, when there is one).
  \<open>summary_after_artifacts\<close> is the property asked of every script: it writes a file,
  and after its last file is written it prints the range and the crossings below 5 and
  1.
\<close>

fun piece_nums :: "piece \<Rightarrow> real list" where
  "piece_nums (Num v digits) = [v]"
| "piece_nums p = []"

fun event_nums :: "event \<Rightarrow> real list" where
  "event_nums (Print ps) = concat (map piece_nums ps)"
| "event_nums (PrintNoEnd ps) = concat (map piece_nums ps)"
| "event_nums ev = []"


definition printed_values :: "event list \<Rightarrow> real list" where
  "printed_values trace = concat (map event_nums trace)"





section \<open>The coordinate formulas, read in exact arithmetic\<close>

text \<open>
  generate\_vrgda\_chart.py (lines 57--58, 75, 82--83, 91--92, 120) and the PIL path of
  generate\_vrgda\_png.py compute, in double precision,
  \<^verbatim>\<open>
  x = margin + (math.log10(eth) - math.log10(0.0001)) / (math.log10(200) - math.log10(0.0001)) * chart_width
  y = margin + (10 - mult) * chart_height / 10
  x_center = margin + ((math.log10(start) + math.log10(end)) / 2 - math.log10(0.0001)) / (math.log10(200) - math.log10(0.0001)) * chart_width
  \<close>
  and plot\_vrgda\_curve.py (lines 62--72) places its zone labels by
  \<^verbatim>\<open>
  prev_x = 0.0001
  for x, label, color in zones:
      if prev_x < 1:
          label_x = np.sqrt(prev_x * x)  # Geometric mean for log scale
      else:
          label_x = (prev_x + x) / 2
      prev_x = x
  \<close>
  The definitions of this section are these expressions as formulas over the reals. They
  say what the expressions compute when every operation is exact; the doubles the
  scripts compute differ from them by rounding.
\<close>

definition column :: "real \<Rightarrow> real" where
  "column x =
     of_int margin
     + (log 10 x - log 10 (1 / 10000)) / (log 10 200 - log 10 (1 / 10000)) * of_int chart_width"

definition row_of :: "real \<Rightarrow> real" where
  "row_of mult = of_int margin + (10 - mult) * of_int chart_height / 10"

definition x_center :: "real \<Rightarrow> real \<Rightarrow> real" where
  "x_center start end =
     of_int margin
     + ((log 10 start + log 10 end) / 2 - log 10 (1 / 10000))
       / (log 10 200 - log 10 (1 / 10000)) * of_int chart_width"

definition plot_zones :: "(real \<times> string) list" where
  "plot_zones =
     [(1 / 1000, ''Starving''),
      (1 / 10, ''Hungry''),
      (1, ''Fed''),
      (10, ''Well-Fed''),
      (100, ''Overfed'')]"

fun zone_labels :: "real \<Rightarrow> (real \<times> string) list \<Rightarrow> (real \<times> string) list" where
  "zone_labels prev_x [] = []"
| "zone_labels prev_x ((x, label) # rest) =
     ((if prev_x < 1 then sqrt (prev_x * x) else (prev_x + x) / 2), label) # zone_labels x rest"

section \<open>Evaluating the rounding\<close>

text \<open>
  Between two consecutive powers of two the exponent is known, and \<open>rnd\<close> is a rounding
  of a quotient to an integer; this evaluates \<open>rnd\<close> at the literals and differences
  used below.
\<close>

lemma pow2_pos: "0 < pow2 k"
  by (simp add: pow2_def)

lemma pow2_powr: "pow2 k = 2 powr of_int k"
  by (simp add: pow2_def powr_real_of_int field_simps)

lemma double_exponent_eq:
  assumes "pow2 e \<le> \<bar>r\<bar>" "\<bar>r\<bar> < pow2 (e + 1)" "- 1022 \<le> e"
  shows "double_exponent r = e"
proof -
  have pos: "0 < \<bar>r\<bar>"
    using assms(1) pow2_pos[of e] by linarith
  have "of_int e \<le> log 2 \<bar>r\<bar>"
    using assms(1) pos by (simp add: pow2_powr le_log_iff)
  moreover have "log 2 \<bar>r\<bar> < of_int e + 1"
    using assms(2) pos by (simp add: pow2_powr log_less_iff)
  ultimately have "\<lfloor>log 2 \<bar>r\<bar>\<rfloor> = e" by linarith
  with assms(3) show ?thesis by (simp add: double_exponent_def)
qed

lemma rnd_eval:
  assumes "pow2 e \<le> \<bar>r\<bar>" "\<bar>r\<bar> < pow2 (e + 1)" "- 1022 \<le> e"
  shows "rnd r = of_int (round_even (r / pow2 (e - 52))) * pow2 (e - 52)"
proof -
  have "r \<noteq> 0" using assms(1) pow2_pos[of e] by auto
  then show ?thesis by (simp add: rnd_def double_exponent_eq[OF assms])
qed

lemma rnd_0: "rnd 0 = 0"
  by (simp add: rnd_def)

lemma rnd_hundredth: "rnd (1 / 100) = 5764607523034235 / 2 ^ 59"
  by (subst rnd_eval[where e = "- 7"]) (simp_all add: pow2_def round_even_def Let_def)

lemma rnd_ten_thousandth: "rnd (1 / 10000) = 7378697629483821 / 2 ^ 66"
  by (subst rnd_eval[where e = "- 14"]) (simp_all add: pow2_def round_even_def Let_def)


lemma rnd_nine_point_two: "rnd (92 / 10) = 5179139571476070 / 2 ^ 49"
  by (subst rnd_eval[where e = 3]) (simp_all add: pow2_def round_even_def Let_def)

lemma rnd_diff_a:
  "rnd (7378697629483821 / 2 ^ 66 - 5764607523034235 / 2 ^ 59) = - (5706961447803893 / 2 ^ 59)"
  by (subst rnd_eval[where e = "- 7"]) (simp_all add: pow2_def round_even_def Let_def)





section \<open>Properties of the summary reporter\<close>

lemma drops_below_takeWhile:
  "i + length mults \<le> length eths \<Longrightarrow>
   drops_below thr eths i mults =
     Inr (let n = length (takeWhile (\<lambda>m. \<not> m < thr) mults)
          in if n < length mults then Some (i + n, eths ! (i + n)) else None)"
  by (induction mults arbitrary: i) (auto simp: getitem_def Let_def)

lemma first_below_unique:
  fixes ys :: "real list"
  assumes "i < length ys" "ys ! i < thr" "\<forall>j<i. \<not> ys ! j < thr"
  shows "length (takeWhile (\<lambda>m. \<not> m < thr) ys) = i"
proof -
  have "takeWhile (\<lambda>m. \<not> m < thr) ys = take i ys"
    using assms by (intro takeWhile_eq_take_P_nth) auto
  with assms(1) show ?thesis by simp
qed

lemma first_below_props:
  fixes ys :: "real list"
  assumes "length (takeWhile (\<lambda>m. \<not> m < thr) ys) < length ys"
  shows "ys ! length (takeWhile (\<lambda>m. \<not> m < thr) ys) < thr"
    and "\<forall>j<length (takeWhile (\<lambda>m. \<not> m < thr) ys). \<not> ys ! j < thr"
proof -
  show "ys ! length (takeWhile (\<lambda>m. \<not> m < thr) ys) < thr"
    using nth_length_takeWhile[OF assms] by simp
  show "\<forall>j<length (takeWhile (\<lambda>m. \<not> m < thr) ys). \<not> ys ! j < thr"
  proof (intro allI impI)
    fix j assume j: "j < length (takeWhile (\<lambda>m. \<not> m < thr) ys)"
    then have "takeWhile (\<lambda>m. \<not> m < thr) ys ! j \<in> set (takeWhile (\<lambda>m. \<not> m < thr) ys)"
      by simp
    then have "\<not> takeWhile (\<lambda>m. \<not> m < thr) ys ! j < thr"
      by (blast dest: set_takeWhileD)
    then show "\<not> ys ! j < thr" using j by (simp add: takeWhile_nth)
  qed
qed

text \<open>
  Claim C4. The reporter scans \<open>love_multipliers\<close> in input order and, for each of the
  fixed thresholds 5 and 1, reports the first sample whose y is strictly below the
  threshold, stopping there: the loop reports index \<open>i\<close> exactly when \<open>y\<^sub>i\<close> is below the
  threshold and no earlier y is, it reports nothing exactly when no y is below it, and
  the script makes this report for 5 and then for 1. On y = [10, 7, 5.5, 4.8, 3] the
  report for the threshold 5 is the sample at index 3 (y = 4.8).
\<close>

theorem first_below_threshold_reported:
  assumes len: "length eths = length mults"
  shows "(drops_below thr eths 0 mults = Inr (Some (i, x)) \<longleftrightarrow>
           i < length mults \<and> mults ! i < thr \<and> (\<forall>j<i. \<not> mults ! j < thr) \<and> x = eths ! i)
       \<and> (drops_below thr eths 0 mults = Inr None \<longleftrightarrow> (\<forall>m\<in>set mults. \<not> m < thr))
       \<and> (threshold_crossings eths mults = Inr (below5, below1) \<longleftrightarrow>
            drops_below 5 eths 0 mults = Inr below5 \<and> drops_below 1 eths 0 mults = Inr below1)
       \<and> drops_below 5 [a, b, c, d, e] 0 [10, 7, 55 / 10, 48 / 10, 3] = Inr (Some (3, d))"
proof -
  let ?n = "length (takeWhile (\<lambda>m. \<not> m < thr) mults)"
  have eq: "\<And>t. drops_below t eths 0 mults =
     Inr (let n = length (takeWhile (\<lambda>m. \<not> m < t) mults)
          in if n < length mults then Some (n, eths ! n) else None)"
    using drops_below_takeWhile[of 0 mults eths] len by (simp add: Let_def)
  have A: "drops_below thr eths 0 mults = Inr (Some (i, x)) \<longleftrightarrow>
           i < length mults \<and> mults ! i < thr \<and> (\<forall>j<i. \<not> mults ! j < thr) \<and> x = eths ! i"
  proof
    assume "drops_below thr eths 0 mults = Inr (Some (i, x))"
    then have "?n < length mults" "i = ?n" "x = eths ! ?n"
      unfolding eq by (auto simp: Let_def split: if_splits)
    then show "i < length mults \<and> mults ! i < thr \<and> (\<forall>j<i. \<not> mults ! j < thr) \<and> x = eths ! i"
      using first_below_props[of thr mults] by simp
  next
    assume "i < length mults \<and> mults ! i < thr \<and> (\<forall>j<i. \<not> mults ! j < thr) \<and> x = eths ! i"
    then show "drops_below thr eths 0 mults = Inr (Some (i, x))"
      unfolding eq using first_below_unique[of i mults thr] by (simp add: Let_def)
  qed
  have B: "drops_below thr eths 0 mults = Inr None \<longleftrightarrow> (\<forall>m\<in>set mults. \<not> m < thr)"
  proof
    assume "drops_below thr eths 0 mults = Inr None"
    then have "\<not> ?n < length mults"
      unfolding eq by (auto simp: Let_def split: if_splits)
    then have "take ?n mults = mults" by simp
    then have "takeWhile (\<lambda>m. \<not> m < thr) mults = mults"
      using takeWhile_eq_take[of "\<lambda>m. \<not> m < thr" mults] by simp
    then show "\<forall>m\<in>set mults. \<not> m < thr" by simp
  next
    assume "\<forall>m\<in>set mults. \<not> m < thr"
    then have "takeWhile (\<lambda>m. \<not> m < thr) mults = mults" by simp
    then have "?n = length mults" by (rule arg_cong)
    then show "drops_below thr eths 0 mults = Inr None"
      unfolding eq Let_def by (simp only: less_irrefl if_False)
  qed
  have C: "threshold_crossings eths mults = Inr (below5, below1) \<longleftrightarrow>
            drops_below 5 eths 0 mults = Inr below5 \<and> drops_below 1 eths 0 mults = Inr below1"
    unfolding threshold_crossings_def eq by simp
  have D: "drops_below 5 [a, b, c, d, e] 0 [10, 7, 55 / 10, 48 / 10, 3] = Inr (Some (3, d))"
    by (simp add: getitem_def)
  from A B C D show ?thesis by blast
qed

theorem first_below_threshold_reported_witness:
  "length [1 / 1000, 1 / 10, 1, 20, 100 :: real] = length [10, 7, 55 / 10, 48 / 10, 3 :: real]
   \<and> drops_below 5 [1 / 1000, 1 / 10, 1, 20, 100] 0 [10, 7, 55 / 10, 48 / 10, 3] = Inr (Some (3, 20))
   \<and> drops_below 1 [1 / 1000, 1 / 10, 1, 20, 100] 0 [10, 7, 55 / 10, 48 / 10, 3] = Inr None
   \<and> threshold_crossings [1 / 1000, 1 / 10, 1, 20, 100] [10, 7, 55 / 10, 48 / 10, 3]
       = Inr (Some (3, 20), None)"
  using first_below_threshold_reported
    [of "[1 / 1000, 1 / 10, 1, 20, 100]" "[10, 7, 55 / 10, 48 / 10, 3]" 5 3 20 "Some (3, 20)" None
        0 0 0 0 0]
    first_below_threshold_reported
    [of "[1 / 1000, 1 / 10, 1, 20, 100]" "[10, 7, 55 / 10, 48 / 10, 3]" 1 0 0 "Some (3, 20)" None
        0 0 0 0 0]
  by (simp add: getitem_def)

section \<open>Properties of the nearest-sample searches\<close>








text \<open>
  So does the search of the ASCII chart cells, in the distance between logarithms taken
  at their exact values, on a non-empty dataset of positive x values.
\<close>

lemma closest_idx_scan_append:
  "closest_idx_scan p i (xs @ ys) st =
     (case closest_idx_scan p i xs st of
        Inl e \<Rightarrow> Inl e
      | Inr st' \<Rightarrow> closest_idx_scan p (i + length xs) ys st')"
proof (induction xs arbitrary: i st)
  case Nil
  then show ?case by simp
next
  case (Cons a xs)
  obtain c md where st: "st = (c, md)" by (cases st)
  show ?case unfolding st by (simp add: Cons.IH split: sum.splits)
qed

lemma closest_idx_scan_first_closest:
  "eths \<noteq> [] \<Longrightarrow> \<forall>e\<in>set eths. 0 < e \<Longrightarrow>
   \<exists>k. first_closest_log p eths k \<and>
       closest_idx_scan p 0 eths (0, None) = Inr (k, Some \<bar>ln (eths ! k) - ln p\<bar>)"
proof (induction eths rule: rev_induct)
  case Nil
  then show ?case by simp
next
  case (snoc e es)
  from snoc.prems have pos: "0 < e" by simp
  show ?case
  proof (cases "es = []")
    case True
    with pos show ?thesis
      by (auto simp: first_closest_log_def)
  next
    case False
    with snoc obtain k where k: "first_closest_log p es k"
      and sc: "closest_idx_scan p 0 es (0, None) = Inr (k, Some \<bar>ln (es ! k) - ln p\<bar>)"
      by auto
    have kl: "k < length es" using k by (simp add: first_closest_log_def)
    show ?thesis
    proof (cases "\<bar>ln e - ln p\<bar> < \<bar>ln (es ! k) - ln p\<bar>")
      case True
      have "first_closest_log p (es @ [e]) (length es)"
        using k True unfolding first_closest_log_def
        by (auto simp: nth_append less_Suc_eq)
      moreover have "closest_idx_scan p 0 (es @ [e]) (0, None)
           = Inr (length es, Some \<bar>ln ((es @ [e]) ! length es) - ln p\<bar>)"
        using True pos by (simp add: closest_idx_scan_append sc)
      ultimately show ?thesis by blast
    next
      case False
      have "first_closest_log p (es @ [e]) k"
        using k False unfolding first_closest_log_def
        by (auto simp: nth_append less_Suc_eq)
      moreover have "closest_idx_scan p 0 (es @ [e]) (0, None)
           = Inr (k, Some \<bar>ln ((es @ [e]) ! k) - ln p\<bar>)"
        using False kl pos by (simp add: closest_idx_scan_append sc nth_append)
      ultimately show ?thesis by blast
    qed
  qed
qed

text \<open>
  Claim C1. The claim asks every threshold annotation to use the sample of least
  absolute distance to the target, the earlier one on a tie. The loop of the KEY
  THRESHOLDS table, whose comment reads "Find closest actual value", does not: on the
  dataset x = [0.0001, 0.01], y = [10, 9.2] and the target 0.01 (all of them the doubles
  that Python reads from these decimals) the closest sample is the one at index 1
  (distance 0), and the key point loop of plot\_vrgda\_curve.py resolves the target to its
  y, 9.2, but the table loop stops at index 0, which is within its tolerance of 0.01, and
  prints 10.
\<close>

theorem key_thresholds_table_not_closest:
  "closest_mult (rnd (1 / 100)) [rnd (1 / 10000), rnd (1 / 100)] [10, rnd (92 / 10)] = Inr 10
   \<and> key_point_y (rnd (1 / 100)) 0 [rnd (1 / 10000), rnd (1 / 100)] [10, rnd (92 / 10)]
       = Inr (rnd (92 / 10))
   \<and> \<bar>[rnd (1 / 10000), rnd (1 / 100)] ! 1 - rnd (1 / 100)\<bar>
       < \<bar>[rnd (1 / 10000), rnd (1 / 100)] ! 0 - rnd (1 / 100)\<bar>"
proof -
  have d: "rnd (rnd (1 / 10000) - rnd (1 / 100)) = - (5706961447803893 / 2 ^ 59)"
    by (simp only: rnd_ten_thousandth rnd_hundredth rnd_diff_a)
  have within: "\<bar>rnd (rnd (1 / 10000) - rnd (1 / 100))\<bar> < rnd (1 / 100)"
    unfolding d by (simp add: rnd_hundredth)
  have apart: "0 < \<bar>rnd (rnd (1 / 10000) - rnd (1 / 100))\<bar>"
    unfolding d by simp
  have exact: "0 < \<bar>rnd (1 / 10000) - rnd (1 / 100)\<bar>"
    by (simp add: rnd_ten_thousandth rnd_hundredth)
  show ?thesis
    using within apart exact
    by (simp add: closest_mult_def key_point_y_def getitem_def rnd_0)
qed

section \<open>Properties of the loader\<close>

lemma load_rows_ok:
  "\<forall>row\<in>set rows. \<exists>x y. float_field pf row ''eth_amount'' = Inr x
        \<and> float_field pf row ''love_multiplier'' = Inr y \<Longrightarrow>
   \<exists>xs ys. load_rows pf rows (xs0, ys0) = Inr (xs0 @ xs, ys0 @ ys)
       \<and> length xs = length rows \<and> length ys = length rows
       \<and> (\<forall>i<length rows. float_field pf (rows ! i) ''eth_amount'' = Inr (xs ! i)
              \<and> float_field pf (rows ! i) ''love_multiplier'' = Inr (ys ! i))"
proof (induction rows arbitrary: xs0 ys0)
  case Nil
  then show ?case by simp
next
  case (Cons r rows)
  from Cons.prems obtain x y where x: "float_field pf r ''eth_amount'' = Inr x"
    and y: "float_field pf r ''love_multiplier'' = Inr y" by auto
  from Cons.prems have "\<forall>row\<in>set rows. \<exists>x y. float_field pf row ''eth_amount'' = Inr x
        \<and> float_field pf row ''love_multiplier'' = Inr y" by simp
  from Cons.IH[OF this, of "xs0 @ [x]" "ys0 @ [y]"]
  obtain xs ys where r: "load_rows pf rows (xs0 @ [x], ys0 @ [y]) = Inr ((xs0 @ [x]) @ xs, (ys0 @ [y]) @ ys)"
    and l: "length xs = length rows" "length ys = length rows"
    and n: "\<forall>i<length rows. float_field pf (rows ! i) ''eth_amount'' = Inr (xs ! i)
              \<and> float_field pf (rows ! i) ''love_multiplier'' = Inr (ys ! i)"
    by blast
  have "load_rows pf (r # rows) (xs0, ys0) = Inr (xs0 @ (x # xs), ys0 @ (y # ys))"
    using r x y by simp
  moreover have "\<forall>i<length (r # rows). float_field pf ((r # rows) ! i) ''eth_amount'' = Inr ((x # xs) ! i)
              \<and> float_field pf ((r # rows) ! i) ''love_multiplier'' = Inr ((y # ys) ! i)"
    using n x y by (auto simp: nth_Cons')
  ultimately show ?case using l
    by (intro exI[of _ "x # xs"] exI[of _ "y # ys"]) simp
qed

lemma load_rows_fail:
  "\<exists>row\<in>set rows. (\<exists>e. float_field pf row ''eth_amount'' = Inl e)
        \<or> (\<exists>e. float_field pf row ''love_multiplier'' = Inl e) \<Longrightarrow>
   \<exists>e. load_rows pf rows (xs0, ys0) = Inl e"
proof (induction rows arbitrary: xs0 ys0)
  case Nil
  then show ?case by simp
next
  case (Cons r rows)
  show ?case
  proof (cases "float_field pf r ''eth_amount''")
    case (Inl e)
    then show ?thesis by simp
  next
    case x: (Inr x)
    show ?thesis
    proof (cases "float_field pf r ''love_multiplier''")
      case (Inl e)
      then show ?thesis using x by simp
    next
      case y: (Inr y)
      with x Cons.prems have "\<exists>row\<in>set rows. (\<exists>e. float_field pf row ''eth_amount'' = Inl e)
        \<or> (\<exists>e. float_field pf row ''love_multiplier'' = Inl e)" by auto
      from Cons.IH[OF this] show ?thesis using x y by simp
    qed
  qed
qed

text \<open>
  Claim C5. When the file opens and, in every row, the fields \<open>eth_amount\<close> and
  \<open>love_multiplier\<close> both parse as numbers, the loader returns two lists that both have
  one entry per row, the i-th entries being the numbers of the i-th row (row order is
  kept). When the file cannot be opened, or some row has a field that does not parse
  (or is missing), the loader returns no lists but an error: nothing in the scripts
  catches it or tries again.
\<close>

theorem loader_lists_or_error:
  "(file = Some rows \<and>
      (\<forall>row\<in>set rows. \<exists>x y. float_field pf row ''eth_amount'' = Inr x
          \<and> float_field pf row ''love_multiplier'' = Inr y) \<longrightarrow>
      (\<exists>xs ys. load_csv pf file = Inr (xs, ys)
         \<and> length xs = length rows \<and> length ys = length rows
         \<and> (\<forall>i<length rows. float_field pf (rows ! i) ''eth_amount'' = Inr (xs ! i)
                \<and> float_field pf (rows ! i) ''love_multiplier'' = Inr (ys ! i))))
   \<and> (file = None \<longrightarrow> load_csv pf file = Inl OSError)
   \<and> (file = Some rows \<and>
      (\<exists>row\<in>set rows. (\<exists>e. float_field pf row ''eth_amount'' = Inl e)
          \<or> (\<exists>e. float_field pf row ''love_multiplier'' = Inl e)) \<longrightarrow>
      (\<exists>e. load_csv pf file = Inl e))"
  using load_rows_ok[of rows pf "[]" "[]"] load_rows_fail[of rows pf "[]" "[]"]
  by (auto simp: load_csv_def)

theorem loader_lists_or_error_witness:
  "load_csv (\<lambda>s. if s = ''0.001'' then Some (1 / 1000 :: real)
                   else if s = ''10'' then Some 10 else None)
      (Some [[''eth_amount'' \<mapsto> Some ''0.001'', ''love_multiplier'' \<mapsto> Some ''10'']])
     = Inr ([1 / 1000], [10])
   \<and> load_csv (\<lambda>s. if s = ''0.001'' then Some (1 / 1000 :: real)
                   else if s = ''10'' then Some 10 else None)
      (Some [[''eth_amount'' \<mapsto> Some ''0.001'', ''love_multiplier'' \<mapsto> Some ''ten'']])
     = Inl ValueError
   \<and> load_csv (\<lambda>s. if s = ''0.001'' then Some (1 / 1000 :: real)
                   else if s = ''10'' then Some 10 else None) None
     = Inl OSError"
  using loader_lists_or_error
    [of "Some [[''eth_amount'' \<mapsto> Some ''0.001'', ''love_multiplier'' \<mapsto> Some ''10'']]"
        "[[''eth_amount'' \<mapsto> Some ''0.001'', ''love_multiplier'' \<mapsto> Some ''10'']]"
        "\<lambda>s. if s = ''0.001'' then Some (1 / 1000 :: real) else if s = ''10'' then Some 10 else None"]
    loader_lists_or_error
    [of "Some [[''eth_amount'' \<mapsto> Some ''0.001'', ''love_multiplier'' \<mapsto> Some ''ten'']]"
        "[[''eth_amount'' \<mapsto> Some ''0.001'', ''love_multiplier'' \<mapsto> Some ''ten'']]"
        "\<lambda>s. if s = ''0.001'' then Some (1 / 1000 :: real) else if s = ''10'' then Some 10 else None"]
    loader_lists_or_error
    [of None "[]"
        "\<lambda>s. if s = ''0.001'' then Some (1 / 1000 :: real) else if s = ''10'' then Some 10 else None"]
  by (simp add: load_csv_def float_field_def)

section \<open>Properties of the fallback rasteriser\<close>

lemma set_py_range: "set (py_range a b) = {i. a \<le> i \<and> i < b}"
  by (auto simp: py_range_def)

lemma zone_writes_in_chart: "w \<in> set (zone_writes xpix) \<Longrightarrow> in_chart w"
  by (auto simp: zone_writes_def in_chart_def set_py_range Let_def)

lemma in_chart_in_grid: "in_chart w \<Longrightarrow> in_grid w"
  by (auto simp: in_chart_def in_grid_def width_def height_def margin_def)

lemma border_writes_in_grid: "w \<in> set border_writes \<Longrightarrow> in_grid w"
  by (auto simp: border_writes_def in_grid_def set_py_range width_def height_def margin_def)

lemma point_pixel_writes_in_grid: "w \<in> set (point_pixel_writes py px) \<Longrightarrow> in_grid w"
  by (simp add: point_pixel_writes_def in_grid_def split: if_splits)

lemma line_pixel_writes_in_grid: "w \<in> set (line_pixel_writes py px) \<Longrightarrow> in_grid w"
  by (auto simp: line_pixel_writes_def in_grid_def split: if_splits)

lemma point_writes_in_grid:
  assumes "w \<in> set (point_writes x y)"
  shows "in_grid w"
proof -
  from assms obtain dy dx where "w \<in> set (point_pixel_writes (y + dy) (x + dx))"
    unfolding point_writes_def by (auto simp: Let_def split: if_splits)
  then show ?thesis by (rule point_pixel_writes_in_grid)
qed

lemma line_writes_in_grid:
  assumes "w \<in> set (line_writes prev_x prev_y x y)"
  shows "in_grid w"
proof -
  from assms obtain py px where "w \<in> set (line_pixel_writes py px)"
    unfolding line_writes_def by (auto simp: Let_def split: if_splits)
  then show ?thesis by (rule line_pixel_writes_in_grid)
qed

lemma grid_writes_in_grid: "w \<in> set grid_writes \<Longrightarrow> in_grid w"
  by (auto simp: grid_writes_def in_grid_def set_py_range width_def height_def margin_def
      chart_height_def Let_def split: if_splits)

lemma curve_writes_in_grid: "w \<in> set (curve_writes xpix ypix prev samples) \<Longrightarrow> in_grid w"
proof (induction samples arbitrary: prev)
  case Nil
  then show ?case by simp
next
  case (Cons s rest)
  obtain eth mult where s: "s = (eth, mult)" by (cases s)
  from Cons.prems show ?case
    unfolding s
    by (auto simp: Let_def line_writes_in_grid point_writes_in_grid Cons.IH split: option.splits)
qed

text \<open>
  Claim C9. Every assignment the fallback rasteriser makes into the pixel grid has its
  row index in \<open>[0, height)\<close> and its column index in \<open>[0, width)\<close>, for any dataset and
  whatever integer coordinates the samples are mapped to, also coordinates outside the
  image: line and point pixels are written only under the check
  \<open>0 <= py < height and 0 <= px < width\<close>, and the zone fills stay inside the chart area
  \<open>[margin, height - margin)\<close> by \<open>[margin, width - margin)\<close>.
\<close>

theorem fallback_writes_in_bounds:
  "(\<forall>w\<in>set (fallback_writes xpix ypix eths mults). in_grid w)
   \<and> (\<forall>w\<in>set (zone_writes xpix). in_chart w)"
  using zone_writes_in_chart in_chart_in_grid border_writes_in_grid grid_writes_in_grid
    curve_writes_in_grid
  by (auto simp: fallback_writes_def)

theorem fallback_writes_in_bounds_witness:
  "(300, 491, (200, 50, 50)) \<in> set (fallback_writes (\<lambda>v. 491) (\<lambda>v. 300) [1] [5])
   \<and> in_grid (300, 491, (200, 50, 50))
   \<and> (0, 799, (200, 50, 50)) \<in> set (fallback_writes (\<lambda>v. 801) (\<lambda>v. - 2) [1] [5])
   \<and> in_grid (0, 799, (200, 50, 50))
   \<and> (60, 60, (255, 229, 229)) \<in> set (zone_writes (\<lambda>v. if v = 1 / 10000 then 60 else 167))
   \<and> in_chart (60, 60, (255, 229, 229))"
proof -
  have p: "(300, 491, (200, 50, 50)) \<in> set (curve_writes (\<lambda>v. 491) (\<lambda>v. 300) None (zip [1] [5]))"
    by (simp add: point_writes_def point_pixel_writes_def py_range_def width_def height_def)
  have q: "(0, 799, (200, 50, 50)) \<in> set (curve_writes (\<lambda>v. 801) (\<lambda>v. - 2) None (zip [1] [5]))"
    by (simp add: point_writes_def point_pixel_writes_def py_range_def width_def height_def)
  have z: "(60, 60, (255, 229, 229)) \<in> set (zone_writes (\<lambda>v. if v = 1 / 10000 then 60 else 167))"
    by (auto simp: zone_writes_def fallback_zones_def set_py_range width_def height_def margin_def)
  have p': "(300, 491, (200, 50, 50)) \<in> set (fallback_writes (\<lambda>v. 491) (\<lambda>v. 300) [1] [5])"
    using p by (simp only: fallback_writes_def set_append Un_iff simp_thms)
  have q': "(0, 799, (200, 50, 50)) \<in> set (fallback_writes (\<lambda>v. 801) (\<lambda>v. - 2) [1] [5])"
    using q by (simp only: fallback_writes_def set_append Un_iff simp_thms)
  show ?thesis
    using p' q' z fallback_writes_in_bounds [of "\<lambda>v. 491" "\<lambda>v. 300" "[1]" "[5]"]
      fallback_writes_in_bounds [of "\<lambda>v. 801" "\<lambda>v. - 2" "[1]" "[5]"]
      fallback_writes_in_bounds [of "\<lambda>v. if v = 1 / 10000 then 60 else 167" "\<lambda>v. 300" "[1]" "[5]"]
    by blast
qed

section \<open>Properties of the console output\<close>




lemma printed_values_append [simp]:
  "printed_values (a @ b) = printed_values a @ printed_values b"
  by (simp add: printed_values_def)

lemma printed_values_Nil [simp]: "printed_values [] = []"
  by (simp add: printed_values_def)

lemma printed_values_Cons [simp]: "printed_values (ev # evs) = event_nums ev @ printed_values evs"
  by (simp add: printed_values_def)























section \<open>Properties of the coordinate formulas in exact arithmetic\<close>

text \<open>
  Over the reals the column formula is strictly increasing, the row formula is the linear
  map \<open>margin + (10 - y) / 10 * chart_height\<close> and strictly decreasing, the label of the
  zone from 0.1 to 1 sits at the geometric mean of its endpoints (about 0.316), and the
  label position of the SVG script is the midpoint of the mapped endpoints, which is the
  image of their geometric mean.
\<close>

lemma log_span_pos: "0 < log 10 200 - log 10 (1 / 10000)"
proof -
  have "log 10 (1 / 10000) < log 10 200" by (subst log_less_cancel_iff) simp_all
  then show ?thesis by simp
qed

lemma column_strict_mono:
  assumes "0 < x1" "x1 < x2"
  shows "column x1 < column x2"
proof -
  have w: "0 < (of_int chart_width :: real)"
    by (simp add: chart_width_def width_def margin_def)
  have "log 10 x1 < log 10 x2" using assms by simp
  then have "(log 10 x1 - log 10 (1 / 10000)) / (log 10 200 - log 10 (1 / 10000))
      < (log 10 x2 - log 10 (1 / 10000)) / (log 10 200 - log 10 (1 / 10000))"
    using log_span_pos by (simp add: divide_strict_right_mono)
  then have "(log 10 x1 - log 10 (1 / 10000)) / (log 10 200 - log 10 (1 / 10000)) * of_int chart_width
      < (log 10 x2 - log 10 (1 / 10000)) / (log 10 200 - log 10 (1 / 10000)) * of_int chart_width"
    using w by (rule mult_strict_right_mono)
  then show ?thesis
    by (simp only: column_def add_less_cancel_left)
qed

lemma row_of_formula: "row_of y = of_int margin + (10 - y) / 10 * of_int chart_height"
  by (simp add: row_of_def)

lemma row_of_strict_antimono: "y1 < y2 \<Longrightarrow> row_of y2 < row_of y1"
  by (simp add: row_of_def chart_height_def height_def margin_def)

lemma fed_label: "zone_labels (1 / 10000) plot_zones ! 2 = (sqrt (1 / 10 * 1), ''Fed'')"
  by (simp add: plot_zones_def)

lemma sqrt_tenth_bounds: "316 / 1000 < sqrt (1 / 10 * 1) \<and> sqrt (1 / 10 * 1) < 317 / 1000"
proof -
  have "(316 / 1000 :: real) = sqrt ((316 / 1000)\<^sup>2)" by simp
  also have "\<dots> < sqrt (1 / 10 * 1)" by (subst real_sqrt_less_iff) (simp add: power2_eq_square)
  finally have a: "316 / 1000 < sqrt (1 / 10 * 1)" .
  have "sqrt (1 / 10 * 1) < sqrt ((317 / 1000)\<^sup>2)"
    by (subst real_sqrt_less_iff) (simp add: power2_eq_square)
  also have "\<dots> = 317 / 1000" by simp
  finally show ?thesis using a by simp
qed

lemma midpoint_of_images:
  fixes m a b c d w :: real
  shows "m + ((a + b) / 2 - c) / d * w = ((m + (a - c) / d * w) + (m + (b - c) / d * w)) / 2"
  by (cases "d = 0") (simp_all add: field_simps)

lemma x_center_midpoint: "x_center s e = (column s + column e) / 2"
  unfolding x_center_def column_def by (rule midpoint_of_images)

lemma x_center_geometric_mean:
  assumes "0 < s" "0 < e"
  shows "x_center s e = column (sqrt (s * e))"
proof -
  have "log 10 (sqrt (s * e)) = (log 10 s + log 10 e) / 2"
    using assms by (simp add: log_def ln_sqrt ln_mult field_simps)
  then show ?thesis by (simp add: x_center_def column_def)
qed

end
